theory Spec2Isabelle
  imports Complex_Main
begin

section \<open>Values of the parsed document\<close>

text \<open>
  Both scripts work on the object that \<^verbatim>\<open>json.loads\<close> returns: \<^verbatim>\<open>None\<close>, a
  bool, a number, a string, a list or a dict with string keys. A number is a rational
  (every finite Python int or float is one, and Python compares ints and floats by
  value); the values \<^verbatim>\<open>NaN\<close> and \<^verbatim>\<open>Infinity\<close>, which are no JSON, are left out.
  A dict is an association list; \<^verbatim>\<open>json.loads\<close> keeps one binding for each key, and
  a lookup takes the first binding of a key.
\<close>

datatype pyval =
    PNone
  | PBool bool
  | PNum rat
  | PStr string
  | PList "pyval list"
  | PDict "(string \<times> pyval) list"

datatype error =
    AttributeError
  | KeyError
  | TypeError
  | IndexError
  | ValueError
  | OverflowError
  | OSError
  | JSONDecodeError

text \<open>Truth value of an object in a condition.\<close>

fun truthy :: "pyval \<Rightarrow> bool" where
  "truthy PNone = False"
| "truthy (PBool b) = b"
| "truthy (PNum r) = (r \<noteq> 0)"
| "truthy (PStr s) = (s \<noteq> [])"
| "truthy (PList xs) = (xs \<noteq> [])"
| "truthy (PDict kv) = (kv \<noteq> [])"

text \<open>The numeric value of a number; a bool is the int 0 or 1.\<close>

fun num_of :: "pyval \<Rightarrow> rat option" where
  "num_of (PNum r) = Some r"
| "num_of (PBool b) = Some (if b then 1 else 0)"
| "num_of _ = None"

text \<open>\<^verbatim>\<open>d.get(k, default)\<close>: only a dict has the method.\<close>

fun dict_get :: "pyval \<Rightarrow> string \<Rightarrow> pyval \<Rightarrow> error + pyval" where
  "dict_get (PDict kv) k d = Inr (case map_of kv k of None \<Rightarrow> d | Some v \<Rightarrow> v)"
| "dict_get _ k d = Inl AttributeError"

text \<open>\<^verbatim>\<open>d[k]\<close> with a string key: a missing key raises KeyError, a list or string
  wants an integer index, and the other objects are not subscriptable.\<close>

fun getitem_str :: "pyval \<Rightarrow> string \<Rightarrow> error + pyval" where
  "getitem_str (PDict kv) k = (case map_of kv k of None \<Rightarrow> Inl KeyError | Some v \<Rightarrow> Inr v)"
| "getitem_str _ k = Inl TypeError"

text \<open>\<^verbatim>\<open>xs[i]\<close> with an index \<open>i \<ge> 0\<close>. The keys of a dict are strings, so an
  integer is never one of them.\<close>

fun getitem_int :: "pyval \<Rightarrow> nat \<Rightarrow> error + pyval" where
  "getitem_int (PList xs) i = (if i < length xs then Inr (xs ! i) else Inl IndexError)"
| "getitem_int (PStr s) i = (if i < length s then Inr (PStr [s ! i]) else Inl IndexError)"
| "getitem_int (PDict kv) i = Inl KeyError"
| "getitem_int _ i = Inl TypeError"

fun py_len :: "pyval \<Rightarrow> error + nat" where
  "py_len (PList xs) = Inr (length xs)"
| "py_len (PStr s) = Inr (length s)"
| "py_len (PDict kv) = Inr (length kv)"
| "py_len _ = Inl TypeError"

fun starts_with :: "string \<Rightarrow> string \<Rightarrow> bool" where
  "starts_with [] s = True"
| "starts_with (p # ps) [] = False"
| "starts_with (p # ps) (c # cs) = (p = c \<and> starts_with ps cs)"

fun substring :: "string \<Rightarrow> string \<Rightarrow> bool" where
  "substring p [] = (p = [])"
| "substring p (c # cs) = (starts_with p (c # cs) \<or> substring p cs)"

text \<open>\<^verbatim>\<open>k in x\<close> for a string \<open>k\<close>: a key of a dict, an element of a list, a
  substring of a string; the other objects are not iterable.\<close>

fun contains_str :: "string \<Rightarrow> pyval \<Rightarrow> error + bool" where
  "contains_str k (PDict kv) = Inr (map_of kv k \<noteq> None)"
| "contains_str k (PList xs) = Inr (PStr k \<in> set xs)"
| "contains_str k (PStr s) = Inr (substring k s)"
| "contains_str k _ = Inl TypeError"

text \<open>The elements a \<^verbatim>\<open>for\<close> loop visits.\<close>

fun py_iter :: "pyval \<Rightarrow> error + pyval list" where
  "py_iter (PList xs) = Inr xs"
| "py_iter (PStr s) = Inr (map (\<lambda>c. PStr [c]) s)"
| "py_iter (PDict kv) = Inr (map (\<lambda>p. PStr (fst p)) kv)"
| "py_iter _ = Inl TypeError"

text \<open>\<^verbatim>\<open>a > b\<close>. Numbers (and bools) compare by value. In both scripts the right
  operand is the running maximum, which is a number at every step, and a string, list,
  dict or \<^verbatim>\<open>None\<close> against a number raises TypeError.\<close>

definition py_gt :: "pyval \<Rightarrow> pyval \<Rightarrow> error + bool" where
  "py_gt a b =
     (case num_of a of
        None \<Rightarrow> Inl TypeError
      | Some x \<Rightarrow> (case num_of b of None \<Rightarrow> Inl TypeError | Some y \<Rightarrow> Inr (x > y)))"

section \<open>earthquake_analysis.py: the accessors\<close>

definition count_earthquakes :: "pyval \<Rightarrow> error + nat" where
  "count_earthquakes data =
     (if truthy data then
        (case contains_str ''features'' data of
           Inl e \<Rightarrow> Inl e
         | Inr b \<Rightarrow>
             if b then
               (case getitem_str data ''features'' of
                  Inl e \<Rightarrow> Inl e
                | Inr fs \<Rightarrow> py_len fs)
             else Inr 0)
      else Inr 0)"

definition get_magnitude :: "pyval \<Rightarrow> error + pyval" where
  "get_magnitude earthquake =
     (case dict_get earthquake ''properties'' (PDict []) of
        Inl e \<Rightarrow> Inl e
      | Inr properties \<Rightarrow> dict_get properties ''mag'' (PNum 0))"

definition get_location :: "pyval \<Rightarrow> error + pyval \<times> pyval" where
  "get_location earthquake =
     (case dict_get earthquake ''geometry'' (PDict []) of
        Inl e \<Rightarrow> Inl e
      | Inr geometry \<Rightarrow>
          (case dict_get geometry ''coordinates'' (PList []) of
             Inl e \<Rightarrow> Inl e
           | Inr coordinates \<Rightarrow>
               (case py_len coordinates of
                  Inl e \<Rightarrow> Inl e
                | Inr n \<Rightarrow>
                    if n \<ge> 2 then
                      (case getitem_int coordinates 1 of
                         Inl e \<Rightarrow> Inl e
                       | Inr lat \<Rightarrow>
                           (case getitem_int coordinates 0 of
                              Inl e \<Rightarrow> Inl e
                            | Inr lon \<Rightarrow> Inr (lat, lon)))
                    else Inr (PNone, PNone))))"

definition get_place_name :: "pyval \<Rightarrow> error + pyval" where
  "get_place_name earthquake =
     (case dict_get earthquake ''properties'' (PDict []) of
        Inl e \<Rightarrow> Inl e
      | Inr properties \<Rightarrow> dict_get properties ''place'' (PStr ''Unknown''))"

text \<open>
  \<^verbatim>\<open>datetime.fromtimestamp(time_ms / 1000)\<close> belongs to the standard library. It is
  the parameter \<open>fromtimestamp_ms\<close>, a function of the number \<open>time_ms\<close> that returns
  the calendar time or the library's error for a value out of its range; the division
  of anything that is no number raises TypeError.
\<close>

definition get_time :: "(rat \<Rightarrow> error + 'dt) \<Rightarrow> pyval \<Rightarrow> error + 'dt option" where
  "get_time fromtimestamp_ms earthquake =
     (case dict_get earthquake ''properties'' (PDict []) of
        Inl e \<Rightarrow> Inl e
      | Inr properties \<Rightarrow>
          (case dict_get properties ''time'' (PNum 0) of
             Inl e \<Rightarrow> Inl e
           | Inr time_ms \<Rightarrow>
               if truthy time_ms then
                 (case num_of time_ms of
                    None \<Rightarrow> Inl TypeError
                  | Some t \<Rightarrow>
                      (case fromtimestamp_ms t of
                         Inl e \<Rightarrow> Inl e
                       | Inr dt \<Rightarrow> Inr (Some dt)))
               else Inr None))"

section \<open>earthquake_analysis.py: the strongest earthquake\<close>

text \<open>
  \<^verbatim>\<open>get_maximum\<close> returns a pair on its early exit and a triple after the loop.
\<close>

datatype maximum =
    Maximum2 pyval "pyval \<times> pyval"
  | Maximum3 pyval "pyval \<times> pyval" pyval

text \<open>The loop over the features, with the three variables it updates.\<close>

fun max_loop ::
  "pyval list \<Rightarrow> pyval \<Rightarrow> pyval \<times> pyval \<Rightarrow> pyval \<Rightarrow> error + maximum" where
  "max_loop [] max_magnitude max_location max_earthquake =
     Inr (Maximum3 max_magnitude max_location max_earthquake)"
| "max_loop (earthquake # rest) max_magnitude max_location max_earthquake =
     (case get_magnitude earthquake of
        Inl e \<Rightarrow> Inl e
      | Inr magnitude \<Rightarrow>
          if truthy magnitude then
            (case py_gt magnitude max_magnitude of
               Inl e \<Rightarrow> Inl e
             | Inr b \<Rightarrow>
                 if b then
                   (case get_location earthquake of
                      Inl e \<Rightarrow> Inl e
                    | Inr loc \<Rightarrow> max_loop rest magnitude loc earthquake)
                 else max_loop rest max_magnitude max_location max_earthquake)
          else max_loop rest max_magnitude max_location max_earthquake)"

definition get_maximum :: "pyval \<Rightarrow> error + maximum" where
  "get_maximum data =
     (if \<not> truthy data then Inr (Maximum2 (PNum 0) (PNone, PNone))
      else
        (case contains_str ''features'' data of
           Inl e \<Rightarrow> Inl e
         | Inr b \<Rightarrow>
             if \<not> b then Inr (Maximum2 (PNum 0) (PNone, PNone))
             else
               (case getitem_str data ''features'' of
                  Inl e \<Rightarrow> Inl e
                | Inr fs \<Rightarrow>
                    (case py_iter fs of
                       Inl e \<Rightarrow> Inl e
                     | Inr xs \<Rightarrow> max_loop xs (PNum 0) (PNone, PNone) PNone))))"

section \<open>earthquakes_completed.py\<close>

text \<open>The second script indexes the document directly.\<close>

definition count_earthquakes_c :: "pyval \<Rightarrow> error + nat" where
  "count_earthquakes_c data =
     (case getitem_str data ''features'' of
        Inl e \<Rightarrow> Inl e
      | Inr fs \<Rightarrow> py_len fs)"

definition get_magnitude_c :: "pyval \<Rightarrow> error + pyval" where
  "get_magnitude_c earthquake =
     (case getitem_str earthquake ''properties'' of
        Inl e \<Rightarrow> Inl e
      | Inr properties \<Rightarrow> getitem_str properties ''mag'')"

definition get_location_c :: "pyval \<Rightarrow> error + pyval \<times> pyval" where
  "get_location_c earthquake =
     (case getitem_str earthquake ''geometry'' of
        Inl e \<Rightarrow> Inl e
      | Inr geometry \<Rightarrow>
          (case getitem_str geometry ''coordinates'' of
             Inl e \<Rightarrow> Inl e
           | Inr coordinates \<Rightarrow>
               (case getitem_int coordinates 1 of
                  Inl e \<Rightarrow> Inl e
                | Inr lat \<Rightarrow>
                    (case getitem_int coordinates 0 of
                       Inl e \<Rightarrow> Inl e
                     | Inr lon \<Rightarrow> Inr (lat, lon)))))"

fun max_loop_c ::
  "pyval list \<Rightarrow> pyval \<Rightarrow> pyval \<times> pyval \<Rightarrow> error + pyval \<times> (pyval \<times> pyval)" where
  "max_loop_c [] max_magnitude max_location = Inr (max_magnitude, max_location)"
| "max_loop_c (earthquake # rest) max_magnitude max_location =
     (case get_magnitude_c earthquake of
        Inl e \<Rightarrow> Inl e
      | Inr magnitude \<Rightarrow>
          if truthy magnitude then
            (case py_gt magnitude max_magnitude of
               Inl e \<Rightarrow> Inl e
             | Inr b \<Rightarrow>
                 if b then
                   (case get_location_c earthquake of
                      Inl e \<Rightarrow> Inl e
                    | Inr loc \<Rightarrow> max_loop_c rest magnitude loc)
                 else max_loop_c rest max_magnitude max_location)
          else max_loop_c rest max_magnitude max_location)"

definition get_maximum_c :: "pyval \<Rightarrow> error + pyval \<times> (pyval \<times> pyval)" where
  "get_maximum_c data =
     (case getitem_str data ''features'' of
        Inl e \<Rightarrow> Inl e
      | Inr fs \<Rightarrow>
          (case py_iter fs of
             Inl e \<Rightarrow> Inl e
           | Inr xs \<Rightarrow> max_loop_c xs (PNum 0) (PNone, PNone)))"

section \<open>earthquake_analysis.py: the report\<close>

text \<open>
  The report is modelled by the values it computes and by the exceptions it can raise;
  the text written by \<^verbatim>\<open>print\<close> is left out. A format specification such as
  \<^verbatim>\<open>:.2f\<close> accepts a number (or a bool), rejects a string with ValueError and every
  other object with TypeError. (An integer too large for a float, which the format
  rejects with OverflowError, is not distinguished from the other numbers.)
\<close>

fun format_f :: "pyval \<Rightarrow> error + unit" where
  "format_f (PNum r) = Inr ()"
| "format_f (PBool b) = Inr ()"
| "format_f (PStr s) = Inl ValueError"
| "format_f _ = Inl TypeError"

text \<open>\<^verbatim>\<open>d.keys()\<close>.\<close>

fun dict_keys :: "pyval \<Rightarrow> error + string list" where
  "dict_keys (PDict kv) = Inr (map fst kv)"
| "dict_keys _ = Inl AttributeError"

text \<open>The lines about the first event: its type, and the keys of its properties and
  geometry.\<close>

definition explore_first :: "pyval \<Rightarrow> error + unit" where
  "explore_first first_earthquake =
     (case dict_get first_earthquake ''type'' (PStr ''N/A'') of
        Inl e \<Rightarrow> Inl e
      | Inr ty \<Rightarrow>
          (case dict_get first_earthquake ''properties'' (PDict []) of
             Inl e \<Rightarrow> Inl e
           | Inr properties \<Rightarrow>
               (case dict_keys properties of
                  Inl e \<Rightarrow> Inl e
                | Inr pks \<Rightarrow>
                    (case dict_get first_earthquake ''geometry'' (PDict []) of
                       Inl e \<Rightarrow> Inl e
                     | Inr geometry \<Rightarrow>
                         (case dict_keys geometry of
                            Inl e \<Rightarrow> Inl e
                          | Inr gks \<Rightarrow> Inr ())))))"

definition explore_data_structure :: "pyval \<Rightarrow> error + unit" where
  "explore_data_structure data =
     (case dict_keys data of
        Inl e \<Rightarrow> Inl e
      | Inr ks \<Rightarrow>
          (case contains_str ''metadata'' data of
             Inl e \<Rightarrow> Inl e
           | Inr has_metadata \<Rightarrow>
               (case (if has_metadata then getitem_str data ''metadata'' else Inr PNone) of
                  Inl e \<Rightarrow> Inl e
                | Inr metadata \<Rightarrow>
                    (case contains_str ''features'' data of
                       Inl e \<Rightarrow> Inl e
                     | Inr has_features \<Rightarrow>
                         if has_features then
                           (case getitem_str data ''features'' of
                              Inl e \<Rightarrow> Inl e
                            | Inr fs \<Rightarrow>
                                (case py_len fs of
                                   Inl e \<Rightarrow> Inl e
                                 | Inr n \<Rightarrow>
                                     if n > 0 then
                                       (case getitem_int fs 0 of
                                          Inl e \<Rightarrow> Inl e
                                        | Inr first_earthquake \<Rightarrow> explore_first first_earthquake)
                                     else Inr ()))
                         else Inr ()))))"

text \<open>
  The list comprehension \<^verbatim>\<open>[get_magnitude(eq) for eq in ... if get_magnitude(eq) is not None]\<close>.
\<close>

fun magnitudes_of :: "pyval list \<Rightarrow> error + pyval list" where
  "magnitudes_of [] = Inr []"
| "magnitudes_of (eq # rest) =
     (case get_magnitude eq of
        Inl e \<Rightarrow> Inl e
      | Inr m \<Rightarrow>
          (case magnitudes_of rest of
             Inl e \<Rightarrow> Inl e
           | Inr ms \<Rightarrow> Inr (if m \<noteq> PNone then m # ms else ms)))"

fun nums_of :: "pyval list \<Rightarrow> rat list option" where
  "nums_of [] = Some []"
| "nums_of (v # vs) =
     (case num_of v of
        None \<Rightarrow> None
      | Some q \<Rightarrow> (case nums_of vs of None \<Rightarrow> None | Some qs \<Rightarrow> Some (q # qs)))"

fun all_strings :: "pyval list \<Rightarrow> bool" where
  "all_strings [] = True"
| "all_strings (PStr s # vs) = all_strings vs"
| "all_strings (v # vs) = False"

text \<open>
  The magnitude range, \<^verbatim>\<open>min(magnitudes)\<close> and \<^verbatim>\<open>max(magnitudes)\<close> under
  \<^verbatim>\<open>:.2f\<close>. Numbers give their least and greatest value. A list of strings only
  is ordered by \<^verbatim>\<open>min\<close> and fails in the format with ValueError, as \<^verbatim>\<open>min\<close> of
  an empty list does; every other list fails with TypeError, in \<^verbatim>\<open>min\<close> or in the
  format. The mean \<^verbatim>\<open>sum(magnitudes)/len(magnitudes)\<close> is a float computed from the
  same list; its value is not part of the model.
\<close>

definition magnitude_range :: "pyval list \<Rightarrow> error + rat \<times> rat" where
  "magnitude_range ms =
     (case nums_of ms of
        Some [] \<Rightarrow> Inl ValueError
      | Some (q # qs) \<Rightarrow> Inr (fold min qs q, fold max qs q)
      | None \<Rightarrow> if all_strings ms then Inl ValueError else Inl TypeError)"

text \<open>The sort key \<^verbatim>\<open>get_magnitude(x) or 0\<close>.\<close>

definition magnitude_or_0 :: "pyval \<Rightarrow> error + pyval" where
  "magnitude_or_0 x =
     (case get_magnitude x of
        Inl e \<Rightarrow> Inl e
      | Inr m \<Rightarrow> Inr (if truthy m then m else PNum 0))"

fun sort_keys :: "pyval list \<Rightarrow> error + (pyval \<times> pyval) list" where
  "sort_keys [] = Inr []"
| "sort_keys (x # xs) =
     (case magnitude_or_0 x of
        Inl e \<Rightarrow> Inl e
      | Inr k \<Rightarrow> (case sort_keys xs of Inl e \<Rightarrow> Inl e | Inr kxs \<Rightarrow> Inr ((k, x) # kxs)))"

fun num_keys :: "(pyval \<times> pyval) list \<Rightarrow> (rat \<times> pyval) list option" where
  "num_keys [] = Some []"
| "num_keys ((k, x) # kxs) =
     (case num_of k of
        None \<Rightarrow> None
      | Some q \<Rightarrow> (case num_keys kxs of None \<Rightarrow> None | Some qs \<Rightarrow> Some ((q, x) # qs)))"

text \<open>
  \<^verbatim>\<open>sorted(..., key=..., reverse=True)\<close> on the list of (key, element) pairs: a
  stable sort by descending key, so elements of equal key keep their order. Fewer than
  two elements are not compared at all. A number against a string, list or dict raises
  TypeError. (Two or more keys none of which is a number also get TypeError here, although
  Python orders strings among themselves: \<^verbatim>\<open>analyze_earthquakes\<close> never sorts such
  keys, because \<^verbatim>\<open>get_maximum\<close> has compared every truthy magnitude with a number
  before.)
\<close>

definition sorted_reverse :: "(pyval \<times> pyval) list \<Rightarrow> error + pyval list" where
  "sorted_reverse kxs =
     (if length kxs \<le> 1 then Inr (map snd kxs)
      else
        (case num_keys kxs of
           None \<Rightarrow> Inl TypeError
         | Some qs \<Rightarrow> Inr (map snd (sort_key (\<lambda>p. - fst p) qs))))"

definition sorted_earthquakes :: "pyval \<Rightarrow> error + pyval list" where
  "sorted_earthquakes fs =
     (case py_iter fs of
        Inl e \<Rightarrow> Inl e
      | Inr xs \<Rightarrow>
          (case sort_keys xs of
             Inl e \<Rightarrow> Inl e
           | Inr kxs \<Rightarrow> sorted_reverse kxs))"

text \<open>The slice \<^verbatim>\<open>sorted_earthquakes[:5]\<close> that the report enumerates.\<close>

definition top5 :: "pyval \<Rightarrow> error + pyval list" where
  "top5 fs =
     (case sorted_earthquakes fs of
        Inl e \<Rightarrow> Inl e
      | Inr xs \<Rightarrow> Inr (take 5 xs))"

text \<open>One line of the top-5 listing: the four accessors, then the magnitude under \<^verbatim>\<open>:.2f\<close>.\<close>

definition top5_line :: "(rat \<Rightarrow> error + 'dt) \<Rightarrow> pyval \<Rightarrow> error + unit" where
  "top5_line fromtimestamp_ms earthquake =
     (case get_magnitude earthquake of
        Inl e \<Rightarrow> Inl e
      | Inr magnitude \<Rightarrow>
          (case get_location earthquake of
             Inl e \<Rightarrow> Inl e
           | Inr location \<Rightarrow>
               (case get_place_name earthquake of
                  Inl e \<Rightarrow> Inl e
                | Inr place \<Rightarrow>
                    (case get_time fromtimestamp_ms earthquake of
                       Inl e \<Rightarrow> Inl e
                     | Inr time \<Rightarrow> format_f magnitude))))"

fun top5_lines :: "(rat \<Rightarrow> error + 'dt) \<Rightarrow> pyval list \<Rightarrow> error + unit" where
  "top5_lines fromtimestamp_ms [] = Inr ()"
| "top5_lines fromtimestamp_ms (earthquake # rest) =
     (case top5_line fromtimestamp_ms earthquake of
        Inl e \<Rightarrow> Inl e
      | Inr u \<Rightarrow> top5_lines fromtimestamp_ms rest)"

text \<open>The unpacking \<^verbatim>\<open>max_magnitude, max_location, max_earthquake = get_maximum(data)\<close>.\<close>

fun unpack3 :: "maximum \<Rightarrow> error + pyval \<times> (pyval \<times> pyval) \<times> pyval" where
  "unpack3 (Maximum3 m l e) = Inr (m, l, e)"
| "unpack3 (Maximum2 m l) = Inl ValueError"

text \<open>
  What \<^verbatim>\<open>analyze_earthquakes\<close> has computed when it returns: nothing on its two
  early exits; otherwise the total, the list \<open>magnitudes\<close> with its range, the
  strongest earthquake and, when there is one, the top-5 list.
\<close>

datatype analysis =
    No_data_available
  | No_earthquake_data
  | Analysed nat "pyval list" "(rat \<times> rat) option" "pyval \<times> (pyval \<times> pyval) \<times> pyval"
      "pyval list option"

definition strongest_section ::
  "(rat \<Rightarrow> error + 'dt) \<Rightarrow> pyval \<Rightarrow> pyval \<times> pyval \<Rightarrow> pyval \<Rightarrow> error + pyval list" where
  "strongest_section fromtimestamp_ms fs max_location max_earthquake =
     (case format_f (fst max_location) of
        Inl e \<Rightarrow> Inl e
      | Inr u \<Rightarrow>
          (case format_f (snd max_location) of
             Inl e \<Rightarrow> Inl e
           | Inr u \<Rightarrow>
               (case get_place_name max_earthquake of
                  Inl e \<Rightarrow> Inl e
                | Inr place \<Rightarrow>
                    (case get_time fromtimestamp_ms max_earthquake of
                       Inl e \<Rightarrow> Inl e
                     | Inr time \<Rightarrow>
                         (case top5 fs of
                            Inl e \<Rightarrow> Inl e
                          | Inr ts \<Rightarrow>
                              (case top5_lines fromtimestamp_ms ts of
                                 Inl e \<Rightarrow> Inl e
                               | Inr u \<Rightarrow> Inr ts))))))"

definition analyze_earthquakes :: "(rat \<Rightarrow> error + 'dt) \<Rightarrow> pyval \<Rightarrow> error + analysis" where
  "analyze_earthquakes fromtimestamp_ms data =
     (if \<not> truthy data then Inr No_data_available
      else
        (case contains_str ''features'' data of
           Inl e \<Rightarrow> Inl e
         | Inr b \<Rightarrow>
             if \<not> b then Inr No_data_available
             else
               (case count_earthquakes data of
                  Inl e \<Rightarrow> Inl e
                | Inr total_earthquakes \<Rightarrow>
                    if total_earthquakes = 0 then Inr No_earthquake_data
                    else
                      (case getitem_str data ''features'' of
                         Inl e \<Rightarrow> Inl e
                       | Inr fs \<Rightarrow>
                           (case py_iter fs of
                              Inl e \<Rightarrow> Inl e
                            | Inr xs \<Rightarrow>
                                (case magnitudes_of xs of
                                   Inl e \<Rightarrow> Inl e
                                 | Inr magnitudes \<Rightarrow>
                                     (case (if magnitudes \<noteq> []
                                            then map_sum id Some (magnitude_range magnitudes)
                                            else Inr None) of
                                        Inl e \<Rightarrow> Inl e
                                      | Inr magnitude_span \<Rightarrow>
                                          (case get_maximum data of
                                             Inl e \<Rightarrow> Inl e
                                           | Inr r \<Rightarrow>
                                               (case unpack3 r of
                                                  Inl e \<Rightarrow> Inl e
                                                | Inr (max_magnitude, max_location, max_earthquake) \<Rightarrow>
                                                    if truthy max_earthquake then
                                                      (case strongest_section fromtimestamp_ms fs
                                                              max_location max_earthquake of
                                                         Inl e \<Rightarrow> Inl e
                                                       | Inr ts \<Rightarrow>
                                                           Inr (Analysed total_earthquakes magnitudes magnitude_span
                                                                 (max_magnitude, max_location, max_earthquake)
                                                                 (Some ts)))
                                                    else
                                                      Inr (Analysed total_earthquakes magnitudes magnitude_span
                                                            (max_magnitude, max_location, max_earthquake)
                                                            None))))))))))"

section \<open>Fetching and the main programs\<close>

text \<open>
  The HTTP request and \<^verbatim>\<open>json.loads\<close> are library code. The outcome of
  \<^verbatim>\<open>requests.get\<close> is an argument: the response, or the exception of a failed
  transport. \<^verbatim>\<open>json.loads\<close> is the parameter \<open>loads\<close>. The field
  \<open>response_text\<close> is \<^verbatim>\<open>response.text\<close>.
\<close>

record response =
  status_code :: int
  response_text :: string

definition get_data :: "(string \<Rightarrow> error + pyval) \<Rightarrow> error + response \<Rightarrow> error + pyval" where
  "get_data loads request =
     (case request of
        Inl e \<Rightarrow> Inl e
      | Inr response \<Rightarrow>
          if status_code response = 200 then loads (response_text response)
          else Inr PNone)"

definition get_data_c :: "(string \<Rightarrow> error + pyval) \<Rightarrow> error + response \<Rightarrow> error + pyval" where
  "get_data_c loads request =
     (case request of
        Inl e \<Rightarrow> Inl e
      | Inr response \<Rightarrow> loads (response_text response))"

text \<open>
  \<^verbatim>\<open>main\<close> either stops after the fetch or runs the exploration, the analysis and
  the final report; the result records which, with the values of the final report.
\<close>

datatype outcome =
    Unable_to_retrieve_data
  | Final_results analysis "(pyval \<times> (pyval \<times> pyval) \<times> pyval) option"

definition final_results ::
  "(rat \<Rightarrow> error + 'dt) \<Rightarrow> pyval \<Rightarrow> error + (pyval \<times> (pyval \<times> pyval) \<times> pyval) option" where
  "final_results fromtimestamp_ms data =
     (case get_maximum data of
        Inl e \<Rightarrow> Inl e
      | Inr r \<Rightarrow>
          (case unpack3 r of
             Inl e \<Rightarrow> Inl e
           | Inr (max_magnitude, max_location, max_earthquake) \<Rightarrow>
               if truthy max_earthquake then
                 (case get_place_name max_earthquake of
                    Inl e \<Rightarrow> Inl e
                  | Inr place \<Rightarrow>
                      (case format_f (fst max_location) of
                         Inl e \<Rightarrow> Inl e
                       | Inr u \<Rightarrow>
                           (case format_f (snd max_location) of
                              Inl e \<Rightarrow> Inl e
                            | Inr u \<Rightarrow>
                                (case get_time fromtimestamp_ms max_earthquake of
                                   Inl e \<Rightarrow> Inl e
                                 | Inr time \<Rightarrow>
                                     Inr (Some (max_magnitude, max_location, max_earthquake))))))
               else Inr None))"

definition main ::
  "(string \<Rightarrow> error + pyval) \<Rightarrow> (rat \<Rightarrow> error + 'dt) \<Rightarrow> error + response \<Rightarrow> error + outcome" where
  "main loads fromtimestamp_ms request =
     (case get_data loads request of
        Inl e \<Rightarrow> Inl e
      | Inr data \<Rightarrow>
          if data = PNone then Inr Unable_to_retrieve_data
          else
            (case explore_data_structure data of
               Inl e \<Rightarrow> Inl e
             | Inr u \<Rightarrow>
                 (case analyze_earthquakes fromtimestamp_ms data of
                    Inl e \<Rightarrow> Inl e
                  | Inr a \<Rightarrow>
                      (case final_results fromtimestamp_ms data of
                         Inl e \<Rightarrow> Inl e
                       | Inr r \<Rightarrow> Inr (Final_results a r)))))"

text \<open>The main block of earthquakes_completed.py.\<close>

definition main_c ::
  "(string \<Rightarrow> error + pyval) \<Rightarrow> error + response \<Rightarrow> error + nat \<times> pyval \<times> (pyval \<times> pyval)" where
  "main_c loads request =
     (case get_data_c loads request of
        Inl e \<Rightarrow> Inl e
      | Inr data \<Rightarrow>
          (case count_earthquakes_c data of
             Inl e \<Rightarrow> Inl e
           | Inr n \<Rightarrow>
               (case get_maximum_c data of
                  Inl e \<Rightarrow> Inl e
                | Inr r \<Rightarrow> Inr (n, r))))"

section \<open>Notions used in the statements\<close>

text \<open>The first two components of what \<^verbatim>\<open>get_maximum\<close> returns, pair or triple.\<close>

fun result_magnitude :: "maximum \<Rightarrow> pyval" where
  "result_magnitude (Maximum2 m l) = m"
| "result_magnitude (Maximum3 m l e) = m"

fun result_location :: "maximum \<Rightarrow> pyval \<times> pyval" where
  "result_location (Maximum2 m l) = l"
| "result_location (Maximum3 m l e) = l"

text \<open>
  The magnitude with which a record takes part in the search for the maximum: the
  number that \<^verbatim>\<open>get_magnitude\<close> returns, unless it is falsy (zero, \<^verbatim>\<open>None\<close>, or
  the default 0 of an absent field).
\<close>

definition candidate :: "pyval \<Rightarrow> rat option" where
  "candidate x =
     (case get_magnitude x of
        Inl e \<Rightarrow> None
      | Inr m \<Rightarrow> if truthy m then num_of m else None)"

text \<open>
  A record the loop of \<^verbatim>\<open>get_maximum\<close> can pass: its magnitude can be read and is
  falsy or a number, and in the second case its location can be read.
\<close>

definition scannable :: "pyval \<Rightarrow> bool" where
  "scannable x =
     (case get_magnitude x of
        Inl e \<Rightarrow> False
      | Inr m \<Rightarrow>
          if truthy m then
            (case num_of m of
               None \<Rightarrow> False
             | Some q \<Rightarrow> (case get_location x of Inl e \<Rightarrow> False | Inr l \<Rightarrow> True))
          else True)"

text \<open>
  A well-formed record carries \<^verbatim>\<open>properties.mag\<close> and a
  \<^verbatim>\<open>geometry.coordinates\<close> array of at least two entries.
\<close>

fun has_mag :: "pyval \<Rightarrow> bool" where
  "has_mag (PDict p) = (map_of p ''mag'' \<noteq> None)"
| "has_mag _ = False"

fun is_coordinates :: "pyval \<Rightarrow> bool" where
  "is_coordinates (PList cs) = (length cs \<ge> 2)"
| "is_coordinates _ = False"

fun has_coordinates :: "pyval \<Rightarrow> bool" where
  "has_coordinates (PDict g) =
     (case map_of g ''coordinates'' of None \<Rightarrow> False | Some c \<Rightarrow> is_coordinates c)"
| "has_coordinates _ = False"

fun well_formed_record :: "pyval \<Rightarrow> bool" where
  "well_formed_record (PDict r) =
     ((case map_of r ''properties'' of None \<Rightarrow> False | Some p \<Rightarrow> has_mag p)
      \<and> (case map_of r ''geometry'' of None \<Rightarrow> False | Some g \<Rightarrow> has_coordinates g))"
| "well_formed_record _ = False"


section \<open>Example documents\<close>

text \<open>
  An event as the service reports it, with its magnitude, longitude and latitude; the
  depth is 10, the place ``Wales'' and the time the first second of the year 2000. The
  examples write the magnitudes 4.5, 5.2 and 3.1 as the fractions \<open>9/2\<close>, \<open>26/5\<close> and
  \<open>31/10\<close>.
\<close>

definition event :: "rat \<Rightarrow> rat \<Rightarrow> rat \<Rightarrow> pyval" where
  "event mag lon lat =
     PDict [(''type'', PStr ''Feature''),
            (''properties'', PDict [(''mag'', PNum mag), (''place'', PStr ''Wales''),
                                    (''time'', PNum 946684800000)]),
            (''geometry'', PDict [(''type'', PStr ''Point''),
                                  (''coordinates'', PList [PNum lon, PNum lat, PNum 10])])]"

text \<open>An event whose magnitude is \<^verbatim>\<open>null\<close>, and one that has no \<^verbatim>\<open>mag\<close> field.\<close>

definition event_null_mag :: pyval where
  "event_null_mag =
     PDict [(''properties'', PDict [(''mag'', PNone), (''place'', PStr ''Wales'')]),
            (''geometry'', PDict [(''coordinates'', PList [PNum (-4), PNum 52, PNum 10])])]"

definition event_no_mag :: pyval where
  "event_no_mag =
     PDict [(''properties'', PDict [(''place'', PStr ''Wales'')]),
            (''geometry'', PDict [(''coordinates'', PList [PNum (-4), PNum 52, PNum 10])])]"

definition collection :: "pyval list \<Rightarrow> pyval" where
  "collection xs = PDict [(''type'', PStr ''FeatureCollection''), (''features'', PList xs)]"

text \<open>
  Stand-ins for the two library functions in the examples: \<^verbatim>\<open>json.loads\<close> on the
  text of an empty object and on texts that are no JSON, and a conversion that names a
  calendar time by its timestamp.
\<close>

definition example_loads :: "string \<Rightarrow> error + pyval" where
  "example_loads s = (if s = ''{}'' then Inr (PDict []) else Inl JSONDecodeError)"

definition example_fromtimestamp :: "rat \<Rightarrow> error + rat" where
  "example_fromtimestamp t = Inr t"

section \<open>The example records\<close>

lemma event_accessors:
  "get_magnitude (event mag lon lat) = Inr (PNum mag)"
  "get_location (event mag lon lat) = Inr (PNum lat, PNum lon)"
  "get_magnitude event_null_mag = Inr PNone"
  "get_magnitude event_no_mag = Inr (PNum 0)"
  by (simp_all add: event_def event_null_mag_def event_no_mag_def get_magnitude_def
      get_location_def)


lemma event_candidate:
  "candidate (event mag lon lat) = (if mag = 0 then None else Some mag)"
  by (simp add: candidate_def event_accessors)

lemma event_scannable: "scannable (event mag lon lat)"
  by (simp add: scannable_def event_accessors)

section \<open>The location accessor\<close>

text \<open>
  C2. A record whose \<^verbatim>\<open>geometry.coordinates\<close> is the array
  \<open>[longitude, latitude, ...]\<close> (with or without a depth and anything after it) has the
  location \<open>(latitude, longitude)\<close> in both scripts: the first two entries are
  returned in swapped order.
\<close>

theorem get_location_swaps:
  assumes "map_of kv ''geometry'' = Some (PDict g)"
    and "map_of g ''coordinates'' = Some (PList (lon # lat # rest))"
  shows "get_location (PDict kv) = Inr (lat, lon) \<and> get_location_c (PDict kv) = Inr (lat, lon)"
  using assms by (simp add: get_location_def get_location_c_def)

theorem get_location_swaps_witness:
  "get_location (PDict [(''geometry'', PDict [(''coordinates'', PList [PNum (-3), PNum 55, PNum 10])])])
     = Inr (PNum 55, PNum (-3))
   \<and> get_location_c (PDict [(''geometry'', PDict [(''coordinates'', PList [PNum (-3), PNum 55, PNum 10])])])
     = Inr (PNum 55, PNum (-3))"
  using get_location_swaps [of "[(''geometry'', PDict [(''coordinates'', PList [PNum (-3), PNum 55, PNum 10])])]"
      "[(''coordinates'', PList [PNum (-3), PNum 55, PNum 10])]" "PNum (-3)" "PNum 55" "[PNum 10]"]
  by simp

section \<open>The timestamp accessor\<close>

text \<open>
  C10. For a record with properties, \<^verbatim>\<open>get_time\<close> returns \<^verbatim>\<open>None\<close> when the
  \<^verbatim>\<open>time\<close> field is absent and when it is exactly 0, the epoch; for every other
  number it returns what the library's conversion makes of it.
\<close>

theorem get_time_epoch_zero_is_missing:
  assumes "map_of kv ''properties'' = Some (PDict p)"
  shows "(map_of p ''time'' = None \<or> map_of p ''time'' = Some (PNum 0)
            \<longrightarrow> get_time f (PDict kv) = Inr None)
       \<and> (\<forall>t. map_of p ''time'' = Some (PNum t) \<longrightarrow> t \<noteq> 0
            \<longrightarrow> get_time f (PDict kv) = (case f t of Inl e \<Rightarrow> Inl e | Inr dt \<Rightarrow> Inr (Some dt)))"
  using assms by (auto simp: get_time_def)

theorem get_time_epoch_zero_is_missing_witness:
  "get_time example_fromtimestamp (PDict [(''properties'', PDict [(''time'', PNum 0)])]) = Inr None
   \<and> get_time example_fromtimestamp (PDict [(''properties'', PDict [(''place'', PStr ''Wales'')])])
       = Inr None
   \<and> get_time example_fromtimestamp (PDict [(''properties'', PDict [(''time'', PNum 946684800000)])])
       = Inr (Some 946684800000)"
  using get_time_epoch_zero_is_missing [of "[(''properties'', PDict [(''time'', PNum 0)])]"
      "[(''time'', PNum 0)]" example_fromtimestamp]
    get_time_epoch_zero_is_missing [of "[(''properties'', PDict [(''place'', PStr ''Wales'')])]"
      "[(''place'', PStr ''Wales'')]" example_fromtimestamp]
    get_time_epoch_zero_is_missing [of "[(''properties'', PDict [(''time'', PNum 946684800000)])]"
      "[(''time'', PNum 946684800000)]" example_fromtimestamp]
  by (simp add: example_fromtimestamp_def)

section \<open>Absent fields\<close>

text \<open>
  C6, as stated, fails on earthquakes_completed.py: its accessors index the record
  directly, so a record without \<^verbatim>\<open>properties\<close> or without \<^verbatim>\<open>geometry\<close> raises
  KeyError.
\<close>

theorem completed_accessors_raise_counterexample:
  "get_magnitude_c (PDict [(''geometry'', PDict [(''coordinates'', PList [PNum (-3), PNum 55])])])
     = Inl KeyError
   \<and> get_location_c (PDict [(''properties'', PDict [(''mag'', PNum 2)])]) = Inl KeyError"
  by (simp add: get_magnitude_c_def get_location_c_def)

text \<open>
  C6, amended. In earthquake_analysis.py no accessor raises on a record (a dict) in
  which the field it reads is absent, at either level: the magnitude is then 0, the place
  name ``Unknown'', the time \<^verbatim>\<open>None\<close> and the location \<open>(None, None)\<close>. On the
  same records the two accessors of earthquakes_completed.py raise KeyError.
\<close>

theorem accessors_absent_fields:
  "(map_of kv ''properties'' = None \<or>
      (\<exists>p. map_of kv ''properties'' = Some (PDict p) \<and> map_of p ''mag'' = None)
        \<longrightarrow> get_magnitude (PDict kv) = Inr (PNum 0))
 \<and> (map_of kv ''properties'' = None \<or>
      (\<exists>p. map_of kv ''properties'' = Some (PDict p) \<and> map_of p ''place'' = None)
        \<longrightarrow> get_place_name (PDict kv) = Inr (PStr ''Unknown''))
 \<and> (map_of kv ''properties'' = None \<or>
      (\<exists>p. map_of kv ''properties'' = Some (PDict p) \<and> map_of p ''time'' = None)
        \<longrightarrow> get_time f (PDict kv) = Inr None)
 \<and> (map_of kv ''geometry'' = None \<or>
      (\<exists>g. map_of kv ''geometry'' = Some (PDict g) \<and> map_of g ''coordinates'' = None)
        \<longrightarrow> get_location (PDict kv) = Inr (PNone, PNone))
 \<and> (map_of kv ''properties'' = None \<or>
      (\<exists>p. map_of kv ''properties'' = Some (PDict p) \<and> map_of p ''mag'' = None)
        \<longrightarrow> get_magnitude_c (PDict kv) = Inl KeyError)
 \<and> (map_of kv ''geometry'' = None \<or>
      (\<exists>g. map_of kv ''geometry'' = Some (PDict g) \<and> map_of g ''coordinates'' = None)
        \<longrightarrow> get_location_c (PDict kv) = Inl KeyError)"
  by (auto simp: get_magnitude_def get_place_name_def get_time_def get_location_def
      get_magnitude_c_def get_location_c_def)

theorem accessors_absent_fields_witness:
  "get_magnitude (PDict []) = Inr (PNum 0)
   \<and> get_place_name (PDict []) = Inr (PStr ''Unknown'')
   \<and> get_time example_fromtimestamp (PDict []) = Inr None
   \<and> get_location (PDict []) = Inr (PNone, PNone)
   \<and> get_magnitude (PDict [(''properties'', PDict []), (''geometry'', PDict [])]) = Inr (PNum 0)
   \<and> get_place_name (PDict [(''properties'', PDict []), (''geometry'', PDict [])])
        = Inr (PStr ''Unknown'')
   \<and> get_time example_fromtimestamp (PDict [(''properties'', PDict []), (''geometry'', PDict [])])
        = Inr None
   \<and> get_location (PDict [(''properties'', PDict []), (''geometry'', PDict [])])
        = Inr (PNone, PNone)
   \<and> get_magnitude_c (PDict [(''properties'', PDict []), (''geometry'', PDict [])])
        = Inl KeyError
   \<and> get_location_c (PDict [(''properties'', PDict []), (''geometry'', PDict [])])
        = Inl KeyError"
  using accessors_absent_fields [of "[]" example_fromtimestamp]
    accessors_absent_fields [of "[(''properties'', PDict []), (''geometry'', PDict [])]"
      example_fromtimestamp]
  by simp

section \<open>The fetch\<close>

text \<open>
  C9, as stated, fails on earthquakes_completed.py: its \<^verbatim>\<open>get_data\<close> never looks at
  the status, so a response with status 404 whose body is the JSON text of an empty
  object is returned as data, and nothing is raised.
\<close>

theorem get_data_c_ignores_status_counterexample:
  "status_code \<lparr>status_code = 404, response_text = ''{}''\<rparr> \<noteq> 200
   \<and> get_data_c example_loads (Inr \<lparr>status_code = 404, response_text = ''{}''\<rparr>)
       = Inr (PDict [])"
  by (simp add: get_data_c_def example_loads_def)

text \<open>
  C9, amended. For a response whose status is not 200, \<^verbatim>\<open>get_data\<close> of
  earthquake_analysis.py returns \<^verbatim>\<open>None\<close> and \<^verbatim>\<open>main\<close> stops before the
  exploration and the analysis. \<^verbatim>\<open>get_data\<close> of earthquakes_completed.py returns
  whatever \<^verbatim>\<open>json.loads\<close> makes of the body; only when that raises does the error
  leave the main block unhandled.
\<close>

theorem non_200_fetch:
  assumes "status_code response \<noteq> 200"
  shows "get_data loads (Inr response) = Inr PNone
       \<and> main loads fromtimestamp_ms (Inr response) = Inr Unable_to_retrieve_data
       \<and> get_data_c loads (Inr response) = loads (response_text response)
       \<and> (\<forall>e. loads (response_text response) = Inl e \<longrightarrow> main_c loads (Inr response) = Inl e)"
  using assms by (simp add: get_data_def main_def get_data_c_def main_c_def)

theorem non_200_fetch_witness:
  "status_code \<lparr>status_code = 503, response_text = ''Service Unavailable''\<rparr> \<noteq> 200
   \<and> get_data example_loads (Inr \<lparr>status_code = 503, response_text = ''Service Unavailable''\<rparr>)
     = Inr PNone
   \<and> main example_loads example_fromtimestamp
        (Inr \<lparr>status_code = 503, response_text = ''Service Unavailable''\<rparr>)
     = Inr Unable_to_retrieve_data
   \<and> get_data_c example_loads
        (Inr \<lparr>status_code = 503, response_text = ''Service Unavailable''\<rparr>)
     = Inl JSONDecodeError
   \<and> main_c example_loads
        (Inr \<lparr>status_code = 503, response_text = ''Service Unavailable''\<rparr>)
     = Inl JSONDecodeError"
proof -
  have h: "status_code \<lparr>status_code = 503, response_text = ''Service Unavailable''\<rparr> \<noteq> 200"
    by simp
  have l: "example_loads ''Service Unavailable'' = Inl JSONDecodeError"
    by (simp add: example_loads_def)
  from non_200_fetch [OF h, of example_loads example_fromtimestamp] l h
  show ?thesis by simp
qed

section \<open>The empty collection\<close>

text \<open>
  C7, as stated, fails on earthquakes_completed.py: a document without the
  \<^verbatim>\<open>features\<close> field makes \<^verbatim>\<open>count_earthquakes\<close> raise KeyError.
\<close>

theorem completed_count_raises_counterexample:
  "map_of [(''type'', PStr ''FeatureCollection'')] ''features'' = None
   \<and> count_earthquakes_c (PDict [(''type'', PStr ''FeatureCollection'')]) = Inl KeyError"
  by (simp add: count_earthquakes_c_def)

text \<open>
  C7, amended. A document whose \<^verbatim>\<open>features\<close> list is empty has count 0, maximum
  magnitude 0 and location \<open>(None, None)\<close> in both scripts, and no maximum record in
  earthquake_analysis.py. A document without the \<^verbatim>\<open>features\<close> field has count 0,
  magnitude 0 and location \<open>(None, None)\<close> in earthquake_analysis.py, which raises
  nothing; in earthquakes_completed.py it raises KeyError.
\<close>

theorem empty_collection_summary:
  "(map_of kv ''features'' = Some (PList []) \<longrightarrow>
      count_earthquakes (PDict kv) = Inr 0
      \<and> get_maximum (PDict kv) = Inr (Maximum3 (PNum 0) (PNone, PNone) PNone)
      \<and> count_earthquakes_c (PDict kv) = Inr 0
      \<and> get_maximum_c (PDict kv) = Inr (PNum 0, (PNone, PNone)))
 \<and> (map_of kv ''features'' = None \<longrightarrow>
      count_earthquakes (PDict kv) = Inr 0
      \<and> (\<exists>r. get_maximum (PDict kv) = Inr r \<and> result_magnitude r = PNum 0
             \<and> result_location r = (PNone, PNone))
      \<and> count_earthquakes_c (PDict kv) = Inl KeyError
      \<and> get_maximum_c (PDict kv) = Inl KeyError)"
  by (auto simp: count_earthquakes_def get_maximum_def count_earthquakes_c_def get_maximum_c_def)

theorem empty_collection_summary_witness:
  "count_earthquakes (collection []) = Inr 0
   \<and> get_maximum (collection []) = Inr (Maximum3 (PNum 0) (PNone, PNone) PNone)
   \<and> count_earthquakes_c (collection []) = Inr 0
   \<and> get_maximum_c (collection []) = Inr (PNum 0, (PNone, PNone))
   \<and> count_earthquakes (PDict [(''type'', PStr ''FeatureCollection'')]) = Inr 0
   \<and> (\<exists>r. get_maximum (PDict [(''type'', PStr ''FeatureCollection'')]) = Inr r
          \<and> result_magnitude r = PNum 0 \<and> result_location r = (PNone, PNone))"
  using empty_collection_summary [of "[(''type'', PStr ''FeatureCollection''), (''features'', PList [])]"]
    empty_collection_summary [of "[(''type'', PStr ''FeatureCollection'')]"]
  by (simp add: collection_def)

text \<open>
  A document without the \<^verbatim>\<open>features\<close> field passes the exploration and the
  analysis of \<^verbatim>\<open>main\<close> and reaches its final report, where the pair that
  \<^verbatim>\<open>get_maximum\<close> returns on its early exit cannot be unpacked into three names.
\<close>

lemma main_without_features:
  assumes "status_code response = 200"
    and "loads (response_text response) = Inr (PDict kv)"
    and "map_of kv ''features'' = None"
  shows "main loads fromtimestamp_ms (Inr response) = Inl ValueError"
proof -
  have d: "get_data loads (Inr response) = Inr (PDict kv)"
    using assms(1,2) by (simp add: get_data_def)
  have e: "explore_data_structure (PDict kv) = Inr ()"
    using assms(3) by (simp add: explore_data_structure_def split: option.splits)
  have a: "analyze_earthquakes fromtimestamp_ms (PDict kv) = Inr No_data_available"
    using assms(3) by (simp add: analyze_earthquakes_def)
  have m: "get_maximum (PDict kv) = Inr (Maximum2 (PNum 0) (PNone, PNone))"
    using assms(3) by (simp add: get_maximum_def)
  have f: "final_results fromtimestamp_ms (PDict kv) = Inl ValueError"
    by (simp add: final_results_def m)
  show ?thesis by (simp add: main_def d e a f)
qed

section \<open>The statistics\<close>

lemma magnitudes_of_filter:
  "\<forall>x\<in>set xs. \<exists>m. get_magnitude x = Inr m \<Longrightarrow>
   \<exists>ms. magnitudes_of xs = Inr ms
      \<and> map Inr ms = filter (\<lambda>v. v \<noteq> Inr PNone) (map get_magnitude xs)"
  by (induction xs) auto

lemma analysed_fields:
  assumes "map_of kv ''features'' = Some (PList xs)"
    and "analyze_earthquakes f (PDict kv) = Inr (Analysed n ms rg mx t5)"
  shows "n = length xs \<and> magnitudes_of xs = Inr ms"
  using assms
  by (auto simp: analyze_earthquakes_def count_earthquakes_def split: if_splits sum.splits prod.splits)

text \<open>
  C5, as stated, fails: a record without the \<^verbatim>\<open>mag\<close> field has the default
  magnitude 0, which is not \<^verbatim>\<open>None\<close>, so it enters the list \<open>magnitudes\<close> and is
  the minimum of the range here.
\<close>

theorem absent_magnitude_in_range_counterexample:
  "map_of [(''place'', PStr ''Wales'')] ''mag'' = None
   \<and> magnitudes_of [event_no_mag, event (9/2) (-3) 55] = Inr [PNum 0, PNum (9/2)]
   \<and> magnitude_range [PNum 0, PNum (9/2)] = Inr (0, (9/2))"
  by (simp add: event_no_mag_def event_def get_magnitude_def magnitude_range_def)

text \<open>
  C5, amended. Every record is counted in the total. The list \<open>magnitudes\<close>, from
  which the range and the mean are computed, holds the magnitude of every record in
  order, except the magnitudes that are \<^verbatim>\<open>None\<close>: a record whose \<^verbatim>\<open>mag\<close> is
  \<^verbatim>\<open>null\<close> is left out, and a record without the \<^verbatim>\<open>mag\<close> field enters with the
  magnitude 0.
\<close>

theorem magnitudes_skip_null_only:
  assumes "map_of kv ''features'' = Some (PList xs)"
    and "\<forall>x\<in>set xs. \<exists>m. get_magnitude x = Inr m"
  shows "count_earthquakes (PDict kv) = Inr (length xs)
       \<and> (\<exists>ms. magnitudes_of xs = Inr ms
              \<and> map Inr ms = filter (\<lambda>v. v \<noteq> Inr PNone) (map get_magnitude xs))
       \<and> (\<forall>n ms rg mx t5. analyze_earthquakes f (PDict kv) = Inr (Analysed n ms rg mx t5)
              \<longrightarrow> n = length xs \<and> magnitudes_of xs = Inr ms)
       \<and> (\<forall>r p. map_of r ''properties'' = Some (PDict p) \<longrightarrow>
              (map_of p ''mag'' = Some PNone \<longrightarrow> get_magnitude (PDict r) = Inr PNone)
              \<and> (map_of p ''mag'' = None \<longrightarrow> get_magnitude (PDict r) = Inr (PNum 0)))"
proof (intro conjI)
  show "count_earthquakes (PDict kv) = Inr (length xs)"
    using assms(1) by (auto simp: count_earthquakes_def)
  show "\<exists>ms. magnitudes_of xs = Inr ms
          \<and> map Inr ms = filter (\<lambda>v. v \<noteq> Inr PNone) (map get_magnitude xs)"
    by (rule magnitudes_of_filter [OF assms(2)])
  show "\<forall>n ms rg mx t5. analyze_earthquakes f (PDict kv) = Inr (Analysed n ms rg mx t5)
          \<longrightarrow> n = length xs \<and> magnitudes_of xs = Inr ms"
    using analysed_fields [OF assms(1)] by blast
  show "\<forall>r p. map_of r ''properties'' = Some (PDict p) \<longrightarrow>
          (map_of p ''mag'' = Some PNone \<longrightarrow> get_magnitude (PDict r) = Inr PNone)
          \<and> (map_of p ''mag'' = None \<longrightarrow> get_magnitude (PDict r) = Inr (PNum 0))"
    by (simp add: get_magnitude_def)
qed

theorem magnitudes_skip_null_only_witness:
  "get_magnitude (event (9/2) (-3) 55) = Inr (PNum (9/2))
   \<and> count_earthquakes (collection [event_null_mag, event_no_mag, event (9/2) (-3) 55]) = Inr 3
   \<and> magnitudes_of [event_null_mag, event_no_mag, event (9/2) (-3) 55] = Inr [PNum 0, PNum (9/2)]
   \<and> get_magnitude event_null_mag = Inr PNone
   \<and> get_magnitude event_no_mag = Inr (PNum 0)"
proof -
  let ?xs = "[event_null_mag, event_no_mag, event (9/2) (-3) 55]"
  have h1: "map_of [(''type'', PStr ''FeatureCollection''), (''features'', PList ?xs)] ''features''
              = Some (PList ?xs)"
    by simp
  have h2: "\<forall>x\<in>set ?xs. \<exists>m. get_magnitude x = Inr m"
    by (simp add: event_null_mag_def event_no_mag_def event_def get_magnitude_def)
  have ev: "map get_magnitude ?xs = [Inr PNone, Inr (PNum 0), Inr (PNum (9/2))]"
    by (simp add: event_null_mag_def event_no_mag_def event_def get_magnitude_def)
  from magnitudes_skip_null_only [OF h1 h2, of example_fromtimestamp]
  have "count_earthquakes (collection ?xs) = Inr 3"
    and "\<exists>ms. magnitudes_of ?xs = Inr ms
           \<and> map Inr ms = filter (\<lambda>v. v \<noteq> Inr PNone) (map get_magnitude ?xs)"
    by (simp_all add: collection_def)
  then show ?thesis using ev by (auto simp: map_eq_Cons_conv)
qed

section \<open>The loops of the two scripts\<close>

lemma max_loop_tracked:
  "max_loop xs m0 l0 e0 = Inr (Maximum3 m l e) \<Longrightarrow>
   (m = m0 \<and> l = l0 \<and> e = e0) \<or>
   (e \<in> set xs \<and> get_magnitude e = Inr m \<and> truthy m \<and> get_location e = Inr l)"
proof (induction xs arbitrary: m0 l0 e0)
  case Nil
  then show ?case by simp
next
  case (Cons x xs)
  show ?case
  proof (cases "get_magnitude x")
    case (Inl err)
    with Cons.prems show ?thesis by simp
  next
    case (Inr mag)
    show ?thesis
    proof (cases "truthy mag")
      case False
      with Inr Cons.prems have "max_loop xs m0 l0 e0 = Inr (Maximum3 m l e)" by simp
      from Cons.IH [OF this] show ?thesis by auto
    next
      case True
      show ?thesis
      proof (cases "py_gt mag m0")
        case (Inl err)
        with Inr True Cons.prems show ?thesis by simp
      next
        case gt: (Inr b)
        show ?thesis
        proof (cases b)
          case False
          with Inr True gt Cons.prems have "max_loop xs m0 l0 e0 = Inr (Maximum3 m l e)" by simp
          from Cons.IH [OF this] show ?thesis by auto
        next
          case b: True
          show ?thesis
          proof (cases "get_location x")
            case (Inl err)
            with Inr True gt b Cons.prems show ?thesis by simp
          next
            case loc: (Inr lx)
            with Inr True gt b Cons.prems
            have "max_loop xs mag lx x = Inr (Maximum3 m l e)" by simp
            from Cons.IH [OF this] Inr True loc show ?thesis by auto
          qed
        qed
      qed
    qed
  qed
qed

lemma max_loop_all_excluded:
  "\<forall>x\<in>set xs. \<exists>v. get_magnitude x = Inr v \<and> \<not> truthy v \<Longrightarrow>
   max_loop xs m0 l0 e0 = Inr (Maximum3 m0 l0 e0)"
  by (induction xs) auto

lemma get_magnitude_PNone: "get_magnitude PNone = Inl AttributeError"
  by (simp add: get_magnitude_def)

lemma get_maximum_features:
  "map_of kv ''features'' = Some (PList xs) \<Longrightarrow>
   get_maximum (PDict kv) = max_loop xs (PNum 0) (PNone, PNone) PNone"
  by (auto simp: get_maximum_def)

lemma get_maximum_tracked:
  assumes "get_maximum data = Inr (Maximum3 m l e)"
  shows "e = PNone \<or> (get_magnitude e = Inr m \<and> truthy m \<and> get_location e = Inr l)"
proof -
  from assms obtain xs where "max_loop xs (PNum 0) (PNone, PNone) PNone = Inr (Maximum3 m l e)"
    by (auto simp: get_maximum_def split: if_splits sum.splits)
  from max_loop_tracked [OF this] show ?thesis by auto
qed

lemma max_loop_c_tracked:
  "max_loop_c xs m0 l0 = Inr (m, l) \<Longrightarrow>
   (m = m0 \<and> l = l0) \<or>
   (\<exists>e\<in>set xs. get_magnitude_c e = Inr m \<and> truthy m \<and> get_location_c e = Inr l)"
proof (induction xs arbitrary: m0 l0)
  case Nil
  then show ?case by simp
next
  case (Cons x xs)
  show ?case
  proof (cases "get_magnitude_c x")
    case (Inl err)
    with Cons.prems show ?thesis by simp
  next
    case (Inr mag)
    show ?thesis
    proof (cases "truthy mag \<and> py_gt mag m0 = Inr True")
      case True
      with Inr Cons.prems obtain lx where lx: "get_location_c x = Inr lx"
        and rest: "max_loop_c xs mag lx = Inr (m, l)"
        by (cases "get_location_c x") auto
      from Cons.IH [OF rest] Inr True lx show ?thesis by auto
    next
      case False
      with Inr Cons.prems have "max_loop_c xs m0 l0 = Inr (m, l)"
        by (auto split: sum.splits if_splits)
      from Cons.IH [OF this] show ?thesis by auto
    qed
  qed
qed

lemma max_loop_c_all_excluded:
  "\<forall>x\<in>set xs. \<exists>v. get_magnitude_c x = Inr v \<and> \<not> truthy v \<Longrightarrow>
   max_loop_c xs m0 l0 = Inr (m0, l0)"
  by (induction xs) auto

lemma get_maximum_c_tracked:
  assumes "get_maximum_c data = Inr (m, l)"
  shows "(m = PNum 0 \<and> l = (PNone, PNone)) \<or>
         (truthy m \<and> (\<exists>x. get_magnitude_c x = Inr m \<and> get_location_c x = Inr l))"
proof -
  from assms obtain xs where "max_loop_c xs (PNum 0) (PNone, PNone) = Inr (m, l)"
    by (auto simp: get_maximum_c_def split: sum.splits)
  from max_loop_c_tracked [OF this] show ?thesis by auto
qed



lemma max_loop_scan:
  assumes "\<forall>x\<in>set xs. scannable x" and "num_of m0 = Some a"
  shows "(max_loop xs m0 l0 e0 = Inr (Maximum3 m0 l0 e0)
            \<and> (\<forall>y\<in>set xs. \<forall>q. candidate y = Some q \<longrightarrow> q \<le> a))
       \<or> (\<exists>pre r post m l q. xs = pre @ r # post
            \<and> max_loop xs m0 l0 e0 = Inr (Maximum3 m l r)
            \<and> get_magnitude r = Inr m \<and> get_location r = Inr l
            \<and> candidate r = Some q \<and> a < q
            \<and> (\<forall>y\<in>set pre. \<forall>q'. candidate y = Some q' \<longrightarrow> q' < q)
            \<and> (\<forall>y\<in>set post. \<forall>q'. candidate y = Some q' \<longrightarrow> q' \<le> q))"
  using assms
proof (induction xs arbitrary: m0 l0 e0 a)
  case Nil
  then show ?case by simp
next
  case (Cons x xs)
  from Cons.prems have sx: "scannable x" and sxs: "\<forall>y\<in>set xs. scannable y" by auto
  from sx obtain mag where mag: "get_magnitude x = Inr mag"
    by (auto simp: scannable_def split: sum.splits)
  have skip: ?case
    if step: "max_loop (x # xs) m0 l0 e0 = max_loop xs m0 l0 e0"
      and cx: "\<forall>q. candidate x = Some q \<longrightarrow> q \<le> a"
  proof -
    from Cons.IH [OF sxs Cons.prems(2), of l0 e0] show ?thesis
    proof (elim disjE exE conjE)
      assume "max_loop xs m0 l0 e0 = Inr (Maximum3 m0 l0 e0)"
        and "\<forall>y\<in>set xs. \<forall>q. candidate y = Some q \<longrightarrow> q \<le> a"
      then show ?thesis using step cx by simp
    next
      fix pre r post m l q
      assume h: "xs = pre @ r # post" "max_loop xs m0 l0 e0 = Inr (Maximum3 m l r)"
        "get_magnitude r = Inr m" "get_location r = Inr l" "candidate r = Some q" "a < q"
        "\<forall>y\<in>set pre. \<forall>q'. candidate y = Some q' \<longrightarrow> q' < q"
        "\<forall>y\<in>set post. \<forall>q'. candidate y = Some q' \<longrightarrow> q' \<le> q"
      have pre: "\<forall>y\<in>set (x # pre). \<forall>q'. candidate y = Some q' \<longrightarrow> q' < q"
        using h(7) h(6) cx by fastforce
      have e1: "x # xs = (x # pre) @ r # post" using h(1) by simp
      have e2: "max_loop (x # xs) m0 l0 e0 = Inr (Maximum3 m l r)"
        unfolding step by (rule h(2))
      have body: "x # xs = (x # pre) @ r # post
            \<and> max_loop (x # xs) m0 l0 e0 = Inr (Maximum3 m l r)
            \<and> get_magnitude r = Inr m \<and> get_location r = Inr l
            \<and> candidate r = Some q \<and> a < q
            \<and> (\<forall>y\<in>set (x # pre). \<forall>q'. candidate y = Some q' \<longrightarrow> q' < q)
            \<and> (\<forall>y\<in>set post. \<forall>q'. candidate y = Some q' \<longrightarrow> q' \<le> q)"
        by (intro conjI e1 e2 h(3) h(4) h(5) h(6) pre h(8))
      show ?thesis by (rule disjI2) (use body in blast)
    qed
  qed
  show ?case
  proof (cases "truthy mag")
    case False
    then have "max_loop (x # xs) m0 l0 e0 = max_loop xs m0 l0 e0" using mag by simp
    moreover have "candidate x = None" using mag False by (simp add: candidate_def)
    ultimately show ?thesis using skip by simp
  next
    case True
    with sx mag obtain qx lx where qx: "num_of mag = Some qx" and lx: "get_location x = Inr lx"
      by (auto simp: scannable_def split: option.splits sum.splits)
    have cx: "candidate x = Some qx" using mag True qx by (simp add: candidate_def)
    have gt: "py_gt mag m0 = Inr (a < qx)" using qx Cons.prems(2) by (simp add: py_gt_def)
    show ?thesis
    proof (cases "a < qx")
      case False
      then have "max_loop (x # xs) m0 l0 e0 = max_loop xs m0 l0 e0"
        using mag True gt by simp
      then show ?thesis using skip cx False by simp
    next
      case less: True
      then have step: "max_loop (x # xs) m0 l0 e0 = max_loop xs mag lx x"
        using mag True gt lx by simp
      from Cons.IH [OF sxs qx, of lx x] show ?thesis
      proof (elim disjE exE conjE)
        assume h: "max_loop xs mag lx x = Inr (Maximum3 mag lx x)"
          "\<forall>y\<in>set xs. \<forall>q. candidate y = Some q \<longrightarrow> q \<le> qx"
        have e1: "x # xs = [] @ x # xs" by simp
        have e2: "max_loop (x # xs) m0 l0 e0 = Inr (Maximum3 mag lx x)"
          unfolding step by (rule h(1))
        have body: "x # xs = [] @ x # xs
            \<and> max_loop (x # xs) m0 l0 e0 = Inr (Maximum3 mag lx x)
            \<and> get_magnitude x = Inr mag \<and> get_location x = Inr lx
            \<and> candidate x = Some qx \<and> a < qx
            \<and> (\<forall>y\<in>set []. \<forall>q'. candidate y = Some q' \<longrightarrow> q' < qx)
            \<and> (\<forall>y\<in>set xs. \<forall>q'. candidate y = Some q' \<longrightarrow> q' \<le> qx)"
          by (intro conjI e1 e2 mag lx cx less ballI h(2)) simp_all
        show ?thesis by (rule disjI2) (use body in blast)
      next
        fix pre r post m l q
        assume h: "xs = pre @ r # post" "max_loop xs mag lx x = Inr (Maximum3 m l r)"
          "get_magnitude r = Inr m" "get_location r = Inr l" "candidate r = Some q" "qx < q"
          "\<forall>y\<in>set pre. \<forall>q'. candidate y = Some q' \<longrightarrow> q' < q"
          "\<forall>y\<in>set post. \<forall>q'. candidate y = Some q' \<longrightarrow> q' \<le> q"
        have pre: "\<forall>y\<in>set (x # pre). \<forall>q'. candidate y = Some q' \<longrightarrow> q' < q"
          using h(7) h(6) cx by auto
        have aq: "a < q" using less h(6) by simp
        have e1: "x # xs = (x # pre) @ r # post" using h(1) by simp
        have e2: "max_loop (x # xs) m0 l0 e0 = Inr (Maximum3 m l r)"
        unfolding step by (rule h(2))
        have body: "x # xs = (x # pre) @ r # post
            \<and> max_loop (x # xs) m0 l0 e0 = Inr (Maximum3 m l r)
            \<and> get_magnitude r = Inr m \<and> get_location r = Inr l
            \<and> candidate r = Some q \<and> a < q
            \<and> (\<forall>y\<in>set (x # pre). \<forall>q'. candidate y = Some q' \<longrightarrow> q' < q)
            \<and> (\<forall>y\<in>set post. \<forall>q'. candidate y = Some q' \<longrightarrow> q' \<le> q)"
          by (intro conjI e1 e2 h(3) h(4) h(5) aq pre h(8))
        show ?thesis by (rule disjI2) (use body in blast)
      qed
    qed
  qed
qed

lemma get_maximum_scan:
  assumes "map_of kv ''features'' = Some (PList xs)"
    and "\<forall>x\<in>set xs. scannable x"
    and "\<exists>x\<in>set xs. \<exists>q. candidate x = Some q \<and> 0 < q"
  shows "\<exists>pre r post m l q. xs = pre @ r # post
            \<and> get_maximum (PDict kv) = Inr (Maximum3 m l r)
            \<and> get_magnitude r = Inr m \<and> get_location r = Inr l
            \<and> candidate r = Some q \<and> 0 < q
            \<and> (\<forall>y\<in>set pre. \<forall>q'. candidate y = Some q' \<longrightarrow> q' < q)
            \<and> (\<forall>y\<in>set post. \<forall>q'. candidate y = Some q' \<longrightarrow> q' \<le> q)"
proof -
  have z: "num_of (PNum 0) = Some 0" by simp
  from assms(3) have notall: "\<not> (\<forall>y\<in>set xs. \<forall>q. candidate y = Some q \<longrightarrow> q \<le> 0)"
    by fastforce
  from max_loop_scan [OF assms(2) z, of "(PNone, PNone)" PNone] notall
  have "\<exists>pre r post m l q. xs = pre @ r # post
            \<and> max_loop xs (PNum 0) (PNone, PNone) PNone = Inr (Maximum3 m l r)
            \<and> get_magnitude r = Inr m \<and> get_location r = Inr l
            \<and> candidate r = Some q \<and> 0 < q
            \<and> (\<forall>y\<in>set pre. \<forall>q'. candidate y = Some q' \<longrightarrow> q' < q)
            \<and> (\<forall>y\<in>set post. \<forall>q'. candidate y = Some q' \<longrightarrow> q' \<le> q)"
    by (elim disjE conjE) (simp, assumption)
  then show ?thesis by (simp only: get_maximum_features [OF assms(1)])
qed

lemma has_magD: "has_mag p \<Longrightarrow> \<exists>kv m. p = PDict kv \<and> map_of kv ''mag'' = Some m"
  by (cases p) auto

lemma is_coordinatesD: "is_coordinates c \<Longrightarrow> \<exists>cs. c = PList cs \<and> length cs \<ge> 2"
  by (cases c) auto

lemma has_coordinatesD:
  "has_coordinates g \<Longrightarrow>
   \<exists>kv cs. g = PDict kv \<and> map_of kv ''coordinates'' = Some (PList cs) \<and> length cs \<ge> 2"
  by (cases g) (auto split: option.splits dest: is_coordinatesD)

lemma well_formed_recordD:
  assumes "well_formed_record x"
  shows "\<exists>r p m g cs. x = PDict r \<and> map_of r ''properties'' = Some (PDict p)
           \<and> map_of p ''mag'' = Some m \<and> map_of r ''geometry'' = Some (PDict g)
           \<and> map_of g ''coordinates'' = Some (PList cs) \<and> length cs \<ge> 2"
proof (cases x)
  case (PDict r)
  with assms obtain p g where pg: "map_of r ''properties'' = Some p" "has_mag p"
      "map_of r ''geometry'' = Some g" "has_coordinates g"
    by (auto split: option.splits)
  from has_magD [OF pg(2)] has_coordinatesD [OF pg(4)] pg(1) pg(3) PDict
  show ?thesis by blast
qed (use assms in simp_all)

lemma well_formed_accessors:
  assumes "well_formed_record x"
  shows "get_magnitude_c x = get_magnitude x" and "get_location_c x = get_location x"
    and "\<exists>l. get_location x = Inr l"
proof -
  from well_formed_recordD [OF assms] obtain r p m g cs where
    h: "x = PDict r" "map_of r ''properties'' = Some (PDict p)" "map_of p ''mag'' = Some m"
       "map_of r ''geometry'' = Some (PDict g)" "map_of g ''coordinates'' = Some (PList cs)"
       "length cs \<ge> 2"
    by blast
  from h(6) have len: "1 < length cs" "0 < length cs" by auto
  show "get_magnitude_c x = get_magnitude x"
    using h by (simp add: get_magnitude_c_def get_magnitude_def)
  show "get_location_c x = get_location x"
    using h len by (simp add: get_location_c_def get_location_def)
  show "\<exists>l. get_location x = Inr l"
    using h len by (simp add: get_location_def)
qed

lemma max_loop_c_max_loop:
  "\<forall>x\<in>set xs. well_formed_record x \<Longrightarrow>
   max_loop_c xs m0 l0 =
     (case max_loop xs m0 l0 e0 of
        Inl err \<Rightarrow> Inl err
      | Inr r \<Rightarrow> Inr (result_magnitude r, result_location r))"
proof (induction xs arbitrary: m0 l0 e0)
  case Nil
  show ?case by simp
next
  case (Cons x xs)
  then have wx: "well_formed_record x" and IH: "\<And>m0 l0 e0. max_loop_c xs m0 l0 =
     (case max_loop xs m0 l0 e0 of
        Inl err \<Rightarrow> Inl err
      | Inr r \<Rightarrow> Inr (result_magnitude r, result_location r))"
    by auto
  note acc = well_formed_accessors [OF wx]
  from acc(3) obtain lx where lx: "get_location x = Inr lx" by blast
  show ?case
  proof (cases "get_magnitude x")
    case (Inl err)
    then show ?thesis by (simp add: acc)
  next
    case (Inr mag)
    show ?thesis
    proof (cases "truthy mag")
      case False
      with Inr IH [of m0 l0 e0] show ?thesis by (simp add: acc)
    next
      case True
      show ?thesis
      proof (cases "py_gt mag m0")
        case (Inl err)
        with Inr True show ?thesis by (simp add: acc)
      next
        case gt: (Inr b)
        show ?thesis
        proof (cases b)
          case True
          with Inr \<open>truthy mag\<close> gt lx IH [of mag lx x] show ?thesis by (simp add: acc)
        next
          case False
          with Inr \<open>truthy mag\<close> gt IH [of m0 l0 e0] show ?thesis by (simp add: acc)
        qed
      qed
    qed
  qed
qed

lemma max_loop_total:
  assumes "\<forall>x\<in>set xs. scannable x" and "num_of m0 = Some a"
  shows "\<exists>m l e. max_loop xs m0 l0 e0 = Inr (Maximum3 m l e)"
  using max_loop_scan [OF assms, of l0 e0] by blast

lemma get_maximum_c_features:
  "map_of kv ''features'' = Some (PList xs) \<Longrightarrow>
   get_maximum_c (PDict kv) = max_loop_c xs (PNum 0) (PNone, PNone)"
  by (auto simp: get_maximum_c_def)

lemma well_formed_scannable:
  "well_formed_record x \<Longrightarrow> get_magnitude x = Inr m \<Longrightarrow> \<not> truthy m \<or> num_of m \<noteq> None
   \<Longrightarrow> scannable x"
  using well_formed_accessors(3) [of x] by (auto simp: scannable_def)

lemma get_maximum_c_agrees:
  assumes "map_of kv ''features'' = Some (PList xs)"
    and "\<forall>x\<in>set xs. well_formed_record x"
  shows "get_maximum_c (PDict kv) =
           (case get_maximum (PDict kv) of
              Inl err \<Rightarrow> Inl err
            | Inr r \<Rightarrow> Inr (result_magnitude r, result_location r))"
  unfolding get_maximum_c_features [OF assms(1)] get_maximum_features [OF assms(1)]
  by (rule max_loop_c_max_loop [OF assms(2)])

section \<open>The strongest earthquake\<close>

text \<open>
  C4. A record whose magnitude is 0, \<^verbatim>\<open>None\<close> or absent (any falsy value) is never
  the record that \<^verbatim>\<open>get_maximum\<close> returns; and when every record of the collection
  is such a record, the result is the initial one: magnitude 0, location
  \<open>(None, None)\<close>, no record. In earthquakes_completed.py, which tracks no record,
  the magnitude and location returned are the initial ones or those of a record with a
  truthy magnitude, and the initial ones when every magnitude is falsy.
\<close>

theorem zero_or_missing_never_maximum:
  "(get_maximum data = Inr (Maximum3 m l e) \<longrightarrow> get_magnitude r = Inr v \<longrightarrow> \<not> truthy v \<longrightarrow> e \<noteq> r)
 \<and> (map_of kv ''features'' = Some (PList xs) \<longrightarrow>
      (\<forall>x\<in>set xs. \<exists>v. get_magnitude x = Inr v \<and> \<not> truthy v) \<longrightarrow>
      get_maximum (PDict kv) = Inr (Maximum3 (PNum 0) (PNone, PNone) PNone))
 \<and> (get_maximum_c data = Inr (m', l') \<longrightarrow>
      (m' = PNum 0 \<and> l' = (PNone, PNone)) \<or>
      (truthy m' \<and> (\<exists>x. get_magnitude_c x = Inr m' \<and> get_location_c x = Inr l')))
 \<and> (map_of kv ''features'' = Some (PList xs) \<longrightarrow>
      (\<forall>x\<in>set xs. \<exists>v. get_magnitude_c x = Inr v \<and> \<not> truthy v) \<longrightarrow>
      get_maximum_c (PDict kv) = Inr (PNum 0, (PNone, PNone)))"
proof (intro conjI impI)
  assume a: "get_maximum data = Inr (Maximum3 m l e)" and b: "get_magnitude r = Inr v"
    and c: "\<not> truthy v"
  from get_maximum_tracked [OF a] b c show "e \<noteq> r"
    by (auto simp: get_magnitude_PNone)
next
  assume "map_of kv ''features'' = Some (PList xs)"
    and "\<forall>x\<in>set xs. \<exists>v. get_magnitude x = Inr v \<and> \<not> truthy v"
  then show "get_maximum (PDict kv) = Inr (Maximum3 (PNum 0) (PNone, PNone) PNone)"
    by (simp add: get_maximum_features max_loop_all_excluded)
next
  assume "get_maximum_c data = Inr (m', l')"
  then show "(m' = PNum 0 \<and> l' = (PNone, PNone)) \<or>
      (truthy m' \<and> (\<exists>x. get_magnitude_c x = Inr m' \<and> get_location_c x = Inr l'))"
    by (rule get_maximum_c_tracked)
next
  assume "map_of kv ''features'' = Some (PList xs)"
    and "\<forall>x\<in>set xs. \<exists>v. get_magnitude_c x = Inr v \<and> \<not> truthy v"
  then show "get_maximum_c (PDict kv) = Inr (PNum 0, (PNone, PNone))"
    by (simp add: get_maximum_c_features max_loop_c_all_excluded)
qed

theorem zero_or_missing_never_maximum_witness:
  "get_maximum (collection [event 0 (-3) 55, event 2 (-1) 53])
     = Inr (Maximum3 (PNum 2) (PNum 53, PNum (-1)) (event 2 (-1) 53))
   \<and> get_magnitude (event 0 (-3) 55) = Inr (PNum 0) \<and> \<not> truthy (PNum 0)
   \<and> event 2 (-1) 53 \<noteq> event 0 (-3) 55
   \<and> get_magnitude event_null_mag = Inr PNone \<and> \<not> truthy PNone
   \<and> get_magnitude event_no_mag = Inr (PNum 0)
   \<and> get_maximum (collection [event 0 (-3) 55, event_null_mag, event_no_mag])
     = Inr (Maximum3 (PNum 0) (PNone, PNone) PNone)
   \<and> get_maximum_c (collection [event 0 (-3) 55, event 2 (-1) 53])
     = Inr (PNum 2, (PNum 53, PNum (-1)))
   \<and> get_magnitude_c event_null_mag = Inr PNone
   \<and> get_maximum_c (collection [event 0 (-3) 55, event_null_mag])
     = Inr (PNum 0, (PNone, PNone))"
proof -
  let ?ys = "[event 0 (-3) 55, event_null_mag, event_no_mag]"
  let ?zs = "[event 0 (-3) 55, event_null_mag]"
  have a: "get_maximum (collection [event 0 (-3) 55, event 2 (-1) 53])
     = Inr (Maximum3 (PNum 2) (PNum 53, PNum (-1)) (event 2 (-1) 53))"
    by (simp add: collection_def get_maximum_def event_accessors py_gt_def)
  have b: "get_magnitude (event 0 (-3) 55) = Inr (PNum 0)"
    by (simp add: event_accessors)
  have c: "\<not> truthy (PNum 0)" by simp
  have d: "map_of [(''type'', PStr ''FeatureCollection''), (''features'', PList ?ys)] ''features''
             = Some (PList ?ys)"
    by simp
  have e: "\<forall>x\<in>set ?ys. \<exists>v. get_magnitude x = Inr v \<and> \<not> truthy v"
    by (simp add: event_accessors)
  have a': "get_maximum_c (collection [event 0 (-3) 55, event 2 (-1) 53])
     = Inr (PNum 2, (PNum 53, PNum (-1)))"
    by (simp add: collection_def get_maximum_c_def event_def get_magnitude_c_def
        get_location_c_def py_gt_def)
  have d': "map_of [(''type'', PStr ''FeatureCollection''), (''features'', PList ?zs)] ''features''
             = Some (PList ?zs)"
    by simp
  have e': "\<forall>x\<in>set ?zs. \<exists>v. get_magnitude_c x = Inr v \<and> \<not> truthy v"
    by (simp add: event_def event_null_mag_def get_magnitude_c_def)
  have n: "get_magnitude_c event_null_mag = Inr PNone"
    by (simp add: event_null_mag_def get_magnitude_c_def)
  from zero_or_missing_never_maximum
    [of "collection [event 0 (-3) 55, event 2 (-1) 53]" "PNum 2" "(PNum 53, PNum (-1))"
      "event 2 (-1) 53" "event 0 (-3) 55" "PNum 0"
      "[(''type'', PStr ''FeatureCollection''), (''features'', PList ?ys)]" ?ys]
    a b c d e
  have first: "event 2 (-1) 53 \<noteq> event 0 (-3) 55"
    and second: "get_maximum (collection ?ys) = Inr (Maximum3 (PNum 0) (PNone, PNone) PNone)"
    by (simp_all add: collection_def)
  from zero_or_missing_never_maximum
    [of _ _ _ _ _ _ "[(''type'', PStr ''FeatureCollection''), (''features'', PList ?zs)]" ?zs]
    d' e'
  have third: "get_maximum_c (collection ?zs) = Inr (PNum 0, (PNone, PNone))"
    by (simp add: collection_def)
  show ?thesis
    by (intro conjI a b c first second a' n third) (simp_all add: event_accessors)
qed

text \<open>
  C1, as stated, fails: the running maximum starts at 0 and a magnitude replaces it
  only when it is greater, so a collection whose only magnitude is \<open>-1\<close>, present and
  not zero, yields the magnitude 0 and no record instead of \<open>-1\<close>.
\<close>

theorem negative_magnitude_counterexample:
  "get_magnitude (event (-1) (-3) 55) = Inr (PNum (-1))
   \<and> get_maximum (collection [event (-1) (-3) 55]) = Inr (Maximum3 (PNum 0) (PNone, PNone) PNone)
   \<and> get_maximum_c (collection [event (-1) (-3) 55]) = Inr (PNum 0, (PNone, PNone))"
  by (simp add: collection_def get_maximum_def get_maximum_c_def event_def get_magnitude_def
      get_magnitude_c_def py_gt_def)

text \<open>
  C1, amended. For every collection whose records can be scanned and one of which has
  a magnitude greater than 0, \<^verbatim>\<open>get_maximum\<close> returns a record of the collection
  with its magnitude and location; that magnitude is positive, no magnitude of the
  collection is greater, and every record before it has a smaller one: on ties the first
  record in the original order is returned. On well-formed records
  earthquakes_completed.py returns the same magnitude and location.
\<close>

theorem get_maximum_first_greatest:
  assumes "map_of kv ''features'' = Some (PList xs)"
    and "\<forall>x\<in>set xs. scannable x"
    and "\<exists>x\<in>set xs. \<exists>q. candidate x = Some q \<and> 0 < q"
  shows "\<exists>pre r post m l q. xs = pre @ r # post
            \<and> get_maximum (PDict kv) = Inr (Maximum3 m l r)
            \<and> get_magnitude r = Inr m \<and> get_location r = Inr l
            \<and> candidate r = Some q \<and> 0 < q
            \<and> (\<forall>y\<in>set pre. \<forall>q'. candidate y = Some q' \<longrightarrow> q' < q)
            \<and> (\<forall>y\<in>set post. \<forall>q'. candidate y = Some q' \<longrightarrow> q' \<le> q)
            \<and> ((\<forall>x\<in>set xs. well_formed_record x) \<longrightarrow> get_maximum_c (PDict kv) = Inr (m, l))"
proof -
  from get_maximum_scan [OF assms] obtain pre r post m l q where
    h: "xs = pre @ r # post" "get_maximum (PDict kv) = Inr (Maximum3 m l r)"
       "get_magnitude r = Inr m" "get_location r = Inr l" "candidate r = Some q" "0 < q"
       "\<forall>y\<in>set pre. \<forall>q'. candidate y = Some q' \<longrightarrow> q' < q"
       "\<forall>y\<in>set post. \<forall>q'. candidate y = Some q' \<longrightarrow> q' \<le> q"
    by blast
  have c: "(\<forall>x\<in>set xs. well_formed_record x) \<longrightarrow> get_maximum_c (PDict kv) = Inr (m, l)"
  proof
    assume "\<forall>x\<in>set xs. well_formed_record x"
    from get_maximum_c_agrees [OF assms(1) this] h(2)
    show "get_maximum_c (PDict kv) = Inr (m, l)" by simp
  qed
  have "xs = pre @ r # post
            \<and> get_maximum (PDict kv) = Inr (Maximum3 m l r)
            \<and> get_magnitude r = Inr m \<and> get_location r = Inr l
            \<and> candidate r = Some q \<and> 0 < q
            \<and> (\<forall>y\<in>set pre. \<forall>q'. candidate y = Some q' \<longrightarrow> q' < q)
            \<and> (\<forall>y\<in>set post. \<forall>q'. candidate y = Some q' \<longrightarrow> q' \<le> q)
            \<and> ((\<forall>x\<in>set xs. well_formed_record x) \<longrightarrow> get_maximum_c (PDict kv) = Inr (m, l))"
    by (intro conjI h c)
  then show ?thesis by blast
qed

theorem get_maximum_first_greatest_witness:
  "scannable (event (9/2) (-3) 55) \<and> scannable (event (26/5) (-1) 53)
   \<and> scannable (event (31/10) (-2) 51) \<and> scannable (event (26/5) 0 52)
   \<and> candidate (event (26/5) (-1) 53) = Some (26/5)
   \<and> (\<exists>pre r post m l q.
         [event (9/2) (-3) 55, event (26/5) (-1) 53, event (31/10) (-2) 51, event (26/5) 0 52] = pre @ r # post
         \<and> get_maximum (collection [event (9/2) (-3) 55, event (26/5) (-1) 53, event (31/10) (-2) 51,
                                    event (26/5) 0 52]) = Inr (Maximum3 m l r)
         \<and> get_magnitude r = Inr m \<and> get_location r = Inr l
         \<and> candidate r = Some q \<and> 0 < q
         \<and> (\<forall>y\<in>set pre. \<forall>q'. candidate y = Some q' \<longrightarrow> q' < q)
         \<and> (\<forall>y\<in>set post. \<forall>q'. candidate y = Some q' \<longrightarrow> q' \<le> q))
   \<and> get_maximum (collection [event (9/2) (-3) 55, event (26/5) (-1) 53, event (31/10) (-2) 51,
                              event (26/5) 0 52])
       = Inr (Maximum3 (PNum (26/5)) (PNum 53, PNum (-1)) (event (26/5) (-1) 53))
   \<and> get_maximum_c (collection [event (9/2) (-3) 55, event (26/5) (-1) 53, event (31/10) (-2) 51,
                                event (26/5) 0 52])
       = Inr (PNum (26/5), (PNum 53, PNum (-1)))"
proof -
  let ?xs = "[event (9/2) (-3) 55, event (26/5) (-1) 53, event (31/10) (-2) 51, event (26/5) 0 52]"
  have h1: "map_of [(''type'', PStr ''FeatureCollection''), (''features'', PList ?xs)] ''features''
              = Some (PList ?xs)"
    by simp
  have h2: "\<forall>x\<in>set ?xs. scannable x"
    by (simp add: event_scannable)
  have c: "candidate (event (26/5) (-1) 53) = Some (26/5) \<and> (0::rat) < (26/5)"
    by (simp add: event_candidate)
  then have h3: "\<exists>x\<in>set ?xs. \<exists>q. candidate x = Some q \<and> 0 < q"
    by (intro bexI [of _ "event (26/5) (-1) 53"] exI [of _ "26/5"]) simp_all
  have wf: "\<forall>x\<in>set ?xs. well_formed_record x"
    by (simp add: event_def)
  have ev: "get_maximum (collection ?xs)
       = Inr (Maximum3 (PNum (26/5)) (PNum 53, PNum (-1)) (event (26/5) (-1) 53))"
    by (simp add: collection_def get_maximum_def event_accessors py_gt_def)
  from get_maximum_first_greatest [OF h1 h2 h3]
  obtain pre r post m l q where
    h: "?xs = pre @ r # post" "get_maximum (collection ?xs) = Inr (Maximum3 m l r)"
       "get_magnitude r = Inr m" "get_location r = Inr l" "candidate r = Some q" "0 < q"
       "\<forall>y\<in>set pre. \<forall>q'. candidate y = Some q' \<longrightarrow> q' < q"
       "\<forall>y\<in>set post. \<forall>q'. candidate y = Some q' \<longrightarrow> q' \<le> q"
       "(\<forall>x\<in>set ?xs. well_formed_record x) \<longrightarrow>
          get_maximum_c (collection ?xs) = Inr (m, l)"
    unfolding collection_def by blast
  from h(9) wf have "get_maximum_c (collection ?xs) = Inr (m, l)" by blast
  with h(2) ev have evc: "get_maximum_c (collection ?xs) = Inr (PNum (26/5), (PNum 53, PNum (-1)))"
    by simp
  have ex: "\<exists>pre r post m l q. ?xs = pre @ r # post
         \<and> get_maximum (collection ?xs) = Inr (Maximum3 m l r)
         \<and> get_magnitude r = Inr m \<and> get_location r = Inr l
         \<and> candidate r = Some q \<and> 0 < q
         \<and> (\<forall>y\<in>set pre. \<forall>q'. candidate y = Some q' \<longrightarrow> q' < q)
         \<and> (\<forall>y\<in>set post. \<forall>q'. candidate y = Some q' \<longrightarrow> q' \<le> q)"
    using h(1-8) by blast
  show ?thesis
    by (intro conjI event_scannable ex ev evc) (simp add: event_candidate)
qed

section \<open>The two scripts agree\<close>

text \<open>
  C8. On a document whose \<^verbatim>\<open>features\<close> is a list of well-formed records, the
  \<^verbatim>\<open>get_maximum\<close> of earthquakes_completed.py gives what the \<^verbatim>\<open>get_maximum\<close>
  of earthquake_analysis.py gives, the same magnitude and the same location, or the same
  exception; and when every magnitude is a number or falsy, both return.
\<close>

theorem get_maximum_variants_agree:
  assumes "map_of kv ''features'' = Some (PList xs)"
    and "\<forall>x\<in>set xs. well_formed_record x"
  shows "get_maximum_c (PDict kv) =
           (case get_maximum (PDict kv) of
              Inl err \<Rightarrow> Inl err
            | Inr r \<Rightarrow> Inr (result_magnitude r, result_location r))
       \<and> ((\<forall>x\<in>set xs. \<exists>m. get_magnitude x = Inr m \<and> (\<not> truthy m \<or> num_of m \<noteq> None)) \<longrightarrow>
            (\<exists>m l e. get_maximum (PDict kv) = Inr (Maximum3 m l e)
                   \<and> get_maximum_c (PDict kv) = Inr (m, l)))"
proof (rule conjI)
  show agree: "get_maximum_c (PDict kv) =
           (case get_maximum (PDict kv) of
              Inl err \<Rightarrow> Inl err
            | Inr r \<Rightarrow> Inr (result_magnitude r, result_location r))"
    by (rule get_maximum_c_agrees [OF assms])
  show "(\<forall>x\<in>set xs. \<exists>m. get_magnitude x = Inr m \<and> (\<not> truthy m \<or> num_of m \<noteq> None)) \<longrightarrow>
            (\<exists>m l e. get_maximum (PDict kv) = Inr (Maximum3 m l e)
                   \<and> get_maximum_c (PDict kv) = Inr (m, l))"
  proof
    assume num: "\<forall>x\<in>set xs. \<exists>m. get_magnitude x = Inr m \<and> (\<not> truthy m \<or> num_of m \<noteq> None)"
    have "\<forall>x\<in>set xs. scannable x"
    proof
      fix x assume "x \<in> set xs"
      with num assms(2) show "scannable x" by (blast intro: well_formed_scannable)
    qed
    from max_loop_total [OF this, of "PNum 0" 0 "(PNone, PNone)" PNone]
    obtain m l e where r: "get_maximum (PDict kv) = Inr (Maximum3 m l e)"
      unfolding get_maximum_features [OF assms(1)] by auto
    with agree have "get_maximum_c (PDict kv) = Inr (m, l)" by simp
    with r show "\<exists>m l e. get_maximum (PDict kv) = Inr (Maximum3 m l e)
                   \<and> get_maximum_c (PDict kv) = Inr (m, l)" by blast
  qed
qed

theorem get_maximum_variants_agree_witness:
  "well_formed_record (event (9/2) (-3) 55) \<and> well_formed_record (event (26/5) (-1) 53)
   \<and> well_formed_record (event (31/10) (-2) 51)
   \<and> get_maximum (collection [event (9/2) (-3) 55, event (26/5) (-1) 53, event (31/10) (-2) 51])
       = Inr (Maximum3 (PNum (26/5)) (PNum 53, PNum (-1)) (event (26/5) (-1) 53))
   \<and> get_maximum_c (collection [event (9/2) (-3) 55, event (26/5) (-1) 53, event (31/10) (-2) 51])
       = Inr (PNum (26/5), (PNum 53, PNum (-1)))"
proof -
  let ?xs = "[event (9/2) (-3) 55, event (26/5) (-1) 53, event (31/10) (-2) 51]"
  have h1: "map_of [(''type'', PStr ''FeatureCollection''), (''features'', PList ?xs)] ''features''
              = Some (PList ?xs)"
    by simp
  have h2: "\<forall>x\<in>set ?xs. well_formed_record x"
    by (simp add: event_def)
  have ev: "get_maximum (collection ?xs)
       = Inr (Maximum3 (PNum (26/5)) (PNum 53, PNum (-1)) (event (26/5) (-1) 53))"
    by (simp add: collection_def get_maximum_def event_accessors py_gt_def)
  from get_maximum_variants_agree [OF h1 h2] ev h2
  show ?thesis by (simp add: collection_def)
qed

section \<open>The top-5 list\<close>









end
